theory Spec2Isabelle
  imports Complex_Main
begin

section \<open>Floating-point values as the program sees them\<close>

text \<open>
  The program computes with Python floats and NumPy \<open>float64\<close> scalars. The model keeps
  the four kinds of value the code distinguishes (\<open>float('inf')\<close> is the code's own
  marker for a zero market price, and \<open>pd.isna\<close> tests for NaN) and computes on finite
  values with exact real arithmetic: rounding and overflow to infinity are not modelled.
  A finite value is a real number, so \<open>Fin 0\<close> is the float \<open>+0.0\<close>; the float
  \<open>-0.0\<close> has no counterpart in the model.
\<close>

datatype npfloat = Fin real | PInf | NInf | NaN

text \<open>Exceptions the pricing function can raise.\<close>

datatype exn =
    ZeroDivisionError              \<comment> \<open>Python float division \<open>S / K\<close> with \<open>K == 0.0\<close>\<close>
  | ValueError_Invalid_option_type \<comment> \<open>\<open>raise ValueError("Invalid option type. ...")\<close>\<close>

fun isna :: "npfloat \<Rightarrow> bool" where
  "isna NaN = True"
| "isna _ = False"

text \<open>IEEE comparison \<open>==\<close>: NaN equals nothing; \<open>!=\<close> is its negation.\<close>

definition np_eq :: "npfloat \<Rightarrow> npfloat \<Rightarrow> bool" where
  "np_eq a b = (\<not> isna a \<and> \<not> isna b \<and> a = b)"

definition np_ne :: "npfloat \<Rightarrow> npfloat \<Rightarrow> bool" where
  "np_ne a b = (\<not> np_eq a b)"

fun np_neg :: "npfloat \<Rightarrow> npfloat" where
  "np_neg (Fin a) = Fin (- a)"
| "np_neg PInf = NInf"
| "np_neg NInf = PInf"
| "np_neg NaN = NaN"

fun np_abs :: "npfloat \<Rightarrow> npfloat" where
  "np_abs (Fin a) = Fin \<bar>a\<bar>"
| "np_abs PInf = PInf"
| "np_abs NInf = PInf"
| "np_abs NaN = NaN"

fun np_add :: "npfloat \<Rightarrow> npfloat \<Rightarrow> npfloat" where
  "np_add NaN _ = NaN"
| "np_add _ NaN = NaN"
| "np_add (Fin a) (Fin b) = Fin (a + b)"
| "np_add PInf NInf = NaN"
| "np_add NInf PInf = NaN"
| "np_add PInf _ = PInf"
| "np_add NInf _ = NInf"
| "np_add (Fin a) PInf = PInf"
| "np_add (Fin a) NInf = NInf"

definition np_sub :: "npfloat \<Rightarrow> npfloat \<Rightarrow> npfloat" where
  "np_sub a b = np_add a (np_neg b)"

text \<open>An infinity of the given sign (\<open>True\<close> is positive).\<close>

definition inf_of :: "bool \<Rightarrow> npfloat" where
  "inf_of positive = (if positive then PInf else NInf)"

fun np_mul :: "npfloat \<Rightarrow> npfloat \<Rightarrow> npfloat" where
  "np_mul NaN _ = NaN"
| "np_mul _ NaN = NaN"
| "np_mul (Fin a) (Fin b) = Fin (a * b)"
| "np_mul (Fin a) PInf = (if a = 0 then NaN else inf_of (0 < a))"
| "np_mul (Fin a) NInf = (if a = 0 then NaN else inf_of (a < 0))"
| "np_mul PInf (Fin b) = (if b = 0 then NaN else inf_of (0 < b))"
| "np_mul NInf (Fin b) = (if b = 0 then NaN else inf_of (b < 0))"
| "np_mul PInf PInf = PInf"
| "np_mul PInf NInf = NInf"
| "np_mul NInf PInf = NInf"
| "np_mul NInf NInf = PInf"

text \<open>
  NumPy scalar division: a zero divisor raises nothing (it only warns) and gives an
  infinity, or NaN for \<open>0 / 0\<close>. The divisor \<open>Fin 0\<close> is \<open>+0.0\<close>, so the infinity
  has the sign of the dividend; a divisor \<open>-0.0\<close> would give the opposite infinity.
  The only zero divisor of the program is \<open>sigma * np.sqrt(T)\<close> for \<open>sigma = 0\<close>.
\<close>

fun np_div :: "npfloat \<Rightarrow> npfloat \<Rightarrow> npfloat" where
  "np_div NaN _ = NaN"
| "np_div _ NaN = NaN"
| "np_div (Fin a) (Fin b) =
     (if b \<noteq> 0 then Fin (a / b) else if a = 0 then NaN else inf_of (0 < a))"
| "np_div (Fin a) PInf = Fin 0"
| "np_div (Fin a) NInf = Fin 0"
| "np_div PInf (Fin b) = inf_of (0 \<le> b)"
| "np_div NInf (Fin b) = inf_of (b < 0)"
| "np_div PInf PInf = NaN"
| "np_div PInf NInf = NaN"
| "np_div NInf PInf = NaN"
| "np_div NInf NInf = NaN"

text \<open>\<open>np.log\<close>, \<open>np.sqrt\<close> and \<open>np.exp\<close> on a finite Python float.\<close>

definition np_log :: "real \<Rightarrow> npfloat" where
  "np_log x = (if 0 < x then Fin (ln x) else if x = 0 then NInf else NaN)"

definition np_sqrt :: "real \<Rightarrow> npfloat" where
  "np_sqrt x = (if x < 0 then NaN else Fin (sqrt x))"

definition np_exp :: "real \<Rightarrow> npfloat" where
  "np_exp x = Fin (exp x)"

text \<open>Square root of a NumPy value, as \<open>Series.std\<close> takes it of the variance.\<close>

fun np_sqrt_val :: "npfloat \<Rightarrow> npfloat" where
  "np_sqrt_val (Fin a) = np_sqrt a"
| "np_sqrt_val PInf = PInf"
| "np_sqrt_val NInf = NaN"
| "np_sqrt_val NaN = NaN"

subsection \<open>The standard normal distribution function\<close>

text \<open>
  \<open>scipy.stats.norm.cdf(x, 0.0, 1.0)\<close> is library code. It is modelled as the exact
  standard normal distribution function, written as its power series
  \<open>1/2 + (1/sqrt(2 pi)) * (\<Sum>n. (-1)^n x^(2n+1) / (2^n n! (2n+1)))\<close>, with the values
  SciPy returns outside the reals: 1 at \<open>+inf\<close>, 0 at \<open>-inf\<close>, NaN at NaN.
\<close>

definition Phi_term :: "real \<Rightarrow> nat \<Rightarrow> real" where
  "Phi_term x n = (- 1) ^ n * x ^ (2 * n + 1) / (2 ^ n * fact n * real (2 * n + 1))"

definition Phi :: "real \<Rightarrow> real" where
  "Phi x = 1 / 2 + (\<Sum>n. Phi_term x n) / sqrt (2 * pi)"

fun norm_cdf :: "npfloat \<Rightarrow> npfloat" where
  "norm_cdf (Fin x) = Fin (Phi x)"
| "norm_cdf PInf = Fin 1"
| "norm_cdf NInf = Fin 0"
| "norm_cdf NaN = NaN"

section \<open>The pricing function\<close>

text \<open>
  \<open>str.lower()\<close>. Only the ASCII capitals matter for the comparisons with \<open>'call'\<close>
  and \<open>'put'\<close>: no other character lowers to one of their letters.
\<close>

definition lower_char :: "char \<Rightarrow> char" where
  "lower_char c =
     (let n = (of_char c :: nat) in if 65 \<le> n \<and> n \<le> 90 then char_of (n + 32) else c)"

definition lower :: "string \<Rightarrow> string" where
  "lower s = map lower_char s"

text \<open>
  \<open>black_scholes(S, K, T, r, sigma, option_type)\<close>. The arguments are finite numbers, as
  the data frame supplies them after \<open>dropna\<close>. For \<open>T \<le> 0\<close> the function returns before
  any arithmetic on \<open>K\<close> or \<open>sigma\<close>. Otherwise \<open>S / K\<close> divides two Python floats and raises
  for \<open>K = 0\<close>; everything after \<open>np.log\<close> is NumPy arithmetic, which does not raise.
  There is no check of \<open>sigma\<close>: \<open>sigma = 0\<close> (read as \<open>+0.0\<close>) makes the divisor of
  \<open>d1\<close> zero.
\<close>

definition black_scholes ::
  "real \<Rightarrow> real \<Rightarrow> real \<Rightarrow> real \<Rightarrow> real \<Rightarrow> string \<Rightarrow> exn + npfloat" where
  "black_scholes S K T r sigma option_type =
     (if T \<le> 0 then
        (if lower option_type = ''call'' then Inr (Fin (max 0 (S - K)))
         else if lower option_type = ''put'' then Inr (Fin (max 0 (K - S)))
         else Inr (Fin 0))
      else if K = 0 then Inl ZeroDivisionError
      else
        (let d1 = np_div (np_add (np_log (S / K)) (Fin ((r + 0.5 * sigma ^ 2) * T)))
                         (np_mul (Fin sigma) (np_sqrt T));
             d2 = np_sub d1 (np_mul (Fin sigma) (np_sqrt T))
         in if lower option_type = ''call'' then
              Inr (np_sub (np_mul (Fin S) (norm_cdf d1))
                          (np_mul (np_mul (Fin K) (np_exp (- r * T))) (norm_cdf d2)))
            else if lower option_type = ''put'' then
              Inr (np_sub (np_mul (np_mul (Fin K) (np_exp (- r * T))) (norm_cdf (np_neg d2)))
                          (np_mul (Fin S) (norm_cdf (np_neg d1))))
            else Inl ValueError_Invalid_option_type))"

section \<open>Per-record error columns\<close>

text \<open>
  A row of \<open>options_df\<close> before the error columns exist: the columns the accuracy
  computation reads. \<open>Option_Close\<close> is the observed market price.
\<close>

record quote_row =
  Option_Type :: string
  Option_Close :: npfloat
  Black_Scholes_Price :: npfloat

record error_row = quote_row +
  Pricing_Error :: npfloat
  Percentage_Error :: npfloat
  Absolute_Percentage_Error :: npfloat

text \<open>
  The three column assignments, row by row:
  \<^verbatim>\<open>Pricing_Error = Black_Scholes_Price - Option_Close\<close>,
  \<^verbatim>\<open>Percentage_Error = (Pricing_Error / Option_Close) * 100 if Option_Close != 0 else float('inf')\<close>,
  \<^verbatim>\<open>Absolute_Percentage_Error = Percentage_Error.abs()\<close>.
\<close>

definition add_error_columns :: "quote_row \<Rightarrow> error_row" where
  "add_error_columns q =
     (let pricing_error = np_sub (Black_Scholes_Price q) (Option_Close q);
          percentage_error =
            (if np_ne (Option_Close q) (Fin 0)
             then np_mul (np_div pricing_error (Option_Close q)) (Fin 100)
             else PInf)
      in \<lparr> Option_Type = Option_Type q,
           Option_Close = Option_Close q,
           Black_Scholes_Price = Black_Scholes_Price q,
           Pricing_Error = pricing_error,
           Percentage_Error = percentage_error,
           Absolute_Percentage_Error = np_abs percentage_error \<rparr>)"

definition error_columns :: "quote_row list \<Rightarrow> error_row list" where
  "error_columns options_df = map add_error_columns options_df"

section \<open>Series reductions\<close>

text \<open>
  \<open>Series.mean\<close>, \<open>Series.median\<close> and \<open>Series.std\<close> are pandas library code, called
  with their defaults (\<open>skipna=True\<close>, \<open>ddof=1\<close>): NaN entries are skipped, a reduction
  with no entry left is NaN, and so is a standard deviation of fewer than two.
\<close>

definition dropna :: "npfloat list \<Rightarrow> npfloat list" where
  "dropna xs = filter (\<lambda>x. \<not> isna x) xs"

definition np_sum :: "npfloat list \<Rightarrow> npfloat" where
  "np_sum xs = foldl np_add (Fin 0) xs"

definition pd_mean :: "npfloat list \<Rightarrow> npfloat" where
  "pd_mean xs =
     (let ys = dropna xs
      in if ys = [] then NaN else np_div (np_sum ys) (Fin (real (length ys))))"

text \<open>The order NumPy sorts by: \<open>-inf\<close> first, \<open>+inf\<close> after every number, NaN last.\<close>

fun np_le :: "npfloat \<Rightarrow> npfloat \<Rightarrow> bool" where
  "np_le _ NaN = True"
| "np_le NaN _ = False"
| "np_le NInf _ = True"
| "np_le _ PInf = True"
| "np_le (Fin a) (Fin b) = (a \<le> b)"
| "np_le _ _ = False"

fun np_insort :: "npfloat \<Rightarrow> npfloat list \<Rightarrow> npfloat list" where
  "np_insort x [] = [x]"
| "np_insort x (y # ys) = (if np_le x y then x # y # ys else y # np_insort x ys)"

definition np_sort :: "npfloat list \<Rightarrow> npfloat list" where
  "np_sort xs = foldr np_insort xs []"

definition pd_median :: "npfloat list \<Rightarrow> npfloat" where
  "pd_median xs =
     (let ys = np_sort (dropna xs); n = length ys
      in if n = 0 then NaN
         else if odd n then ys ! (n div 2)
         else np_div (np_add (ys ! (n div 2 - 1)) (ys ! (n div 2))) (Fin 2))"

definition pd_std :: "npfloat list \<Rightarrow> npfloat" where
  "pd_std xs =
     (let ys = dropna xs; n = length ys
      in if n \<le> 1 then NaN
         else
           (let avg = np_div (np_sum ys) (Fin (real n));
                sqr = np_sum (map (\<lambda>y. np_mul (np_sub avg y) (np_sub avg y)) ys)
            in np_sqrt_val (np_div sqr (Fin (real (n - 1))))))"

section \<open>The quantitative summary\<close>

text \<open>
  The selections \<^verbatim>\<open>options_df[options_df[col] != float('inf')][col]\<close> of the summary.
\<close>

definition finite_abs_errors :: "error_row list \<Rightarrow> npfloat list" where
  "finite_abs_errors options_df =
     map Absolute_Percentage_Error
       (filter (\<lambda>row. np_ne (Absolute_Percentage_Error row) PInf) options_df)"

definition finite_errors :: "error_row list \<Rightarrow> npfloat list" where
  "finite_errors options_df =
     map Percentage_Error (filter (\<lambda>row. np_ne (Percentage_Error row) PInf) options_df)"

definition processed_rows :: "error_row list \<Rightarrow> nat" where
  "processed_rows options_df = length options_df"

definition average_absolute_error :: "error_row list \<Rightarrow> npfloat" where
  "average_absolute_error options_df = pd_mean (finite_abs_errors options_df)"

definition call_options_df :: "error_row list \<Rightarrow> error_row list" where
  "call_options_df options_df =
     filter (\<lambda>row. lower (Option_Type row) = ''call''
                    \<and> np_ne (Absolute_Percentage_Error row) PInf) options_df"

definition put_options_df :: "error_row list \<Rightarrow> error_row list" where
  "put_options_df options_df =
     filter (\<lambda>row. lower (Option_Type row) = ''put''
                    \<and> np_ne (Absolute_Percentage_Error row) PInf) options_df"

definition median_absolute_error :: "error_row list \<Rightarrow> npfloat" where
  "median_absolute_error options_df = pd_median (finite_abs_errors options_df)"

definition std_dev_error :: "error_row list \<Rightarrow> npfloat" where
  "std_dev_error options_df = pd_std (finite_errors options_df)"

definition mean_error :: "error_row list \<Rightarrow> npfloat" where
  "mean_error options_df = pd_mean (finite_errors options_df)"

text \<open>
  \<open>Series.value_counts()\<close> is pandas library code: one entry for each distinct value
  with the number of its occurrences, the most frequent first. Values are compared as
  they stand. Among equal counts the model keeps the order of first appearance.
\<close>

fun count_value :: "string \<Rightarrow> (string \<times> nat) list \<Rightarrow> (string \<times> nat) list" where
  "count_value v [] = [(v, 1)]"
| "count_value v ((w, c) # rest) =
     (if v = w then (w, Suc c) # rest else (w, c) # count_value v rest)"

definition value_counts :: "string list \<Rightarrow> (string \<times> nat) list" where
  "value_counts xs =
     sort_key (\<lambda>(v, c). - int c) (foldl (\<lambda>counts v. count_value v counts) [] xs)"

text \<open>\<^verbatim>\<open>option_counts = options_df['Option_Type'].value_counts()\<close>\<close>

definition option_counts :: "error_row list \<Rightarrow> (string \<times> nat) list" where
  "option_counts options_df = value_counts (map Option_Type options_df)"

text \<open>\<open>str.capitalize()\<close>: the first character in upper case, the rest in lower case.\<close>

definition upper_char :: "char \<Rightarrow> char" where
  "upper_char c =
     (let n = (of_char c :: nat) in if 97 \<le> n \<and> n \<le> 122 then char_of (n - 32) else c)"

fun capitalize :: "string \<Rightarrow> string" where
  "capitalize [] = []"
| "capitalize (c # cs) = upper_char c # lower cs"

text \<open>
  The lines \<^verbatim>\<open>Number of {option_type.capitalize()} Options: {count}\<close>, one for each
  entry of \<open>option_counts\<close>: the label and the count.
\<close>

definition print_option_counts :: "error_row list \<Rightarrow> (string \<times> nat) list" where
  "print_option_counts options_df =
     map (\<lambda>(option_type, count). (capitalize option_type, count)) (option_counts options_df)"

text \<open>
  What the summary prints for a statistic: the number, or one of the two messages that
  stand for a statistic without a value.
\<close>

datatype report_line =
    Printed npfloat
  | Could_not_be_calculated
  | No_valid_data

record summary_report =
  Total_Options_Processed :: nat
  Number_of_Options :: "(string \<times> nat) list"
  Average_Absolute_Error :: report_line
  Average_Absolute_Error_Call :: report_line
  Average_Absolute_Error_Put :: report_line
  Median_Absolute_Error :: report_line
  Standard_Deviation_of_Error :: report_line
  Mean_Error :: report_line

text \<open>\<^verbatim>\<open>if not pd.isna(x): print(x) else: print("... Could not be calculated ...")\<close>\<close>

definition print_unless_na :: "npfloat \<Rightarrow> report_line" where
  "print_unless_na x = (if \<not> isna x then Printed x else Could_not_be_calculated)"

text \<open>
  \<^verbatim>\<open>if not df.empty: print(df['Absolute_Percentage_Error'].mean()) else: print("No valid ...")\<close>
\<close>

definition print_kind_average :: "error_row list \<Rightarrow> report_line" where
  "print_kind_average kind_df =
     (if kind_df \<noteq> [] then Printed (pd_mean (map Absolute_Percentage_Error kind_df))
      else No_valid_data)"

text \<open>
  The whole summary; \<open>None\<close> is the branch that prints only
  \<open>No data available in 'options_df' to provide a summary.\<close>
\<close>

definition quantitative_summary :: "error_row list \<Rightarrow> summary_report option" where
  "quantitative_summary options_df =
     (if options_df \<noteq> [] then
        Some \<lparr> Total_Options_Processed = processed_rows options_df,
               Number_of_Options = print_option_counts options_df,
               Average_Absolute_Error = print_unless_na (average_absolute_error options_df),
               Average_Absolute_Error_Call = print_kind_average (call_options_df options_df),
               Average_Absolute_Error_Put = print_kind_average (put_options_df options_df),
               Median_Absolute_Error = print_unless_na (median_absolute_error options_df),
               Standard_Deviation_of_Error = print_unless_na (std_dev_error options_df),
               Mean_Error = print_unless_na (mean_error options_df) \<rparr>
      else None)"

section \<open>The overall summary of the accuracy test\<close>

text \<open>
  The main script ends with a summary of its own:
  \<^verbatim>\<open>
  processed_rows = len(options_df)
  if processed_rows > 0:
      average_error = options_df[options_df['Absolute_Percentage_Error'] != float('inf')]
                        ['Absolute_Percentage_Error'].mean()
      print(f"  Total Options Processed:    {processed_rows}")
      print(f"  Average Absolute Error:     {average_error:.2f}%")
  else:
      print("No valid options data found to process in the CSV file.")
  \<close>
  The mean is formatted as a number whatever it is; \<open>None\<close> is the \<open>else\<close> branch.
\<close>

definition average_error :: "error_row list \<Rightarrow> npfloat" where
  "average_error options_df = pd_mean (finite_abs_errors options_df)"

record overall_report =
  Overall_Total_Options_Processed :: nat
  Overall_Average_Absolute_Error :: report_line

definition overall_summary :: "error_row list \<Rightarrow> overall_report option" where
  "overall_summary options_df =
     (if 0 < processed_rows options_df then
        Some \<lparr> Overall_Total_Options_Processed = processed_rows options_df,
               Overall_Average_Absolute_Error = Printed (average_error options_df) \<rparr>
      else None)"

section \<open>Reference statistics on real numbers\<close>

text \<open>
  The statistics as the specification words them, on a list of real samples: arithmetic
  mean, median by the middle-element / average-of-two-middle rule, and the sample
  standard deviation with the \<open>N - 1\<close> denominator.
\<close>

definition mean :: "real list \<Rightarrow> real" where
  "mean xs = sum_list xs / real (length xs)"

definition median :: "real list \<Rightarrow> real" where
  "median xs =
     (let s = sort xs; n = length xs
      in if odd n then s ! (n div 2) else (s ! (n div 2 - 1) + s ! (n div 2)) / 2)"

definition sample_stddev :: "real list \<Rightarrow> real" where
  "sample_stddev xs =
     sqrt ((\<Sum>x\<leftarrow>xs. (x - mean xs)\<^sup>2) / real (length xs - 1))"

text \<open>The finite value of a float (used on prices known to be finite).\<close>

fun is_fin :: "npfloat \<Rightarrow> bool" where
  "is_fin (Fin _) = True"
| "is_fin _ = False"

fun fin_val :: "npfloat \<Rightarrow> real" where
  "fin_val (Fin a) = a"
| "fin_val _ = 0"

definition finite_prices :: "quote_row \<Rightarrow> bool" where
  "finite_prices q = (is_fin (Black_Scholes_Price q) \<and> is_fin (Option_Close q))"

text \<open>
  The defined samples of a data set: the signed percentage errors of the records whose
  observed price is not zero, in input order.
\<close>

definition pct_error :: "quote_row \<Rightarrow> real" where
  "pct_error q =
     (fin_val (Black_Scholes_Price q) - fin_val (Option_Close q))
       / fin_val (Option_Close q) * 100"

definition defined_errors :: "quote_row list \<Rightarrow> real list" where
  "defined_errors qs = map pct_error (filter (\<lambda>q. Option_Close q \<noteq> Fin 0) qs)"

definition zero_priced :: "quote_row list \<Rightarrow> nat" where
  "zero_priced qs = length (filter (\<lambda>q. Option_Close q = Fin 0) qs)"

section \<open>The closed-form price as the specification writes it\<close>

text \<open>The two auxiliary quantities of the regular branch, on real numbers.\<close>

definition d1_formula :: "real \<Rightarrow> real \<Rightarrow> real \<Rightarrow> real \<Rightarrow> real \<Rightarrow> real" where
  "d1_formula S K T r sigma =
     (ln (S / K) + (r + 0.5 * sigma\<^sup>2) * T) / (sigma * sqrt T)"

definition d2_formula :: "real \<Rightarrow> real \<Rightarrow> real \<Rightarrow> real \<Rightarrow> real \<Rightarrow> real" where
  "d2_formula S K T r sigma = d1_formula S K T r sigma - sigma * sqrt T"

text \<open>Lowering every \<open>Option_Type\<close> of a frame.\<close>

definition lower_kinds :: "error_row list \<Rightarrow> error_row list" where
  "lower_kinds options_df =
     map (\<lambda>row. row\<lparr>Option_Type := lower (Option_Type row)\<rparr>) options_df"

text \<open>
  The three-record scenario of the specification: observed prices 100, 0 and 50, with
  theoretical prices 110, 7 and 40.
\<close>

definition scenario_quotes :: "quote_row list" where
  "scenario_quotes =
     [\<lparr>Option_Type = ''call'', Option_Close = Fin 100, Black_Scholes_Price = Fin 110\<rparr>,
      \<lparr>Option_Type = ''put'', Option_Close = Fin 0, Black_Scholes_Price = Fin 7\<rparr>,
      \<lparr>Option_Type = ''PUT'', Option_Close = Fin 50, Black_Scholes_Price = Fin 40\<rparr>]"

text \<open>A record with observed price 0.\<close>

definition zero_priced_quote :: "quote_row" where
  "zero_priced_quote =
     \<lparr>Option_Type = ''call'', Option_Close = Fin 0, Black_Scholes_Price = Fin 5\<rparr>"

text \<open>Two call records whose option type is written in different letter cases.\<close>

definition mixed_case_quotes :: "quote_row list" where
  "mixed_case_quotes =
     [\<lparr>Option_Type = ''Call'', Option_Close = Fin 100, Black_Scholes_Price = Fin 110\<rparr>,
      \<lparr>Option_Type = ''CALL'', Option_Close = Fin 50, Black_Scholes_Price = Fin 40\<rparr>]"

section \<open>Auxiliary facts\<close>

lemma lower_char_idem: "lower_char (lower_char c) = lower_char c"
  by (auto simp: lower_char_def Let_def)

lemma lower_idem: "lower (lower s) = lower s"
  by (simp add: lower_def lower_char_idem)

lemma Phi_term_minus: "Phi_term (- x) n = - Phi_term x n"
  by (simp add: Phi_term_def)

lemma abs_Phi_term_le: "\<bar>Phi_term x n\<bar> \<le> \<bar>x\<bar> * (inverse (fact n) * (x\<^sup>2 / 2) ^ n)"
proof -
  have a: "\<bar>x ^ (2 * n + 1)\<bar> = \<bar>x\<bar> * (x\<^sup>2) ^ n"
    by (simp add: abs_mult power_mult)
  have "\<bar>Phi_term x n\<bar> = (\<bar>x\<bar> * (x\<^sup>2) ^ n / (2 ^ n * fact n)) / real (2 * n + 1)"
    unfolding Phi_term_def abs_divide abs_mult a by (simp add: power_abs)
  also have "\<dots> \<le> (\<bar>x\<bar> * (x\<^sup>2) ^ n / (2 ^ n * fact n)) / 1"
    by (intro divide_left_mono) auto
  also have "\<dots> = \<bar>x\<bar> * (inverse (fact n) * (x\<^sup>2 / 2) ^ n)"
    by (simp add: power_divide field_simps)
  finally show ?thesis .
qed

lemma summable_Phi_term: "summable (Phi_term x)"
proof (rule summable_comparison_test')
  show "summable (\<lambda>n. \<bar>x\<bar> * (inverse (fact n) * (x\<^sup>2 / 2) ^ n))"
    by (intro summable_mult summable_exp)
next
  fix n :: nat
  show "norm (Phi_term x n) \<le> \<bar>x\<bar> * (inverse (fact n) * (x\<^sup>2 / 2) ^ n)"
    using abs_Phi_term_le by simp
qed

lemma Phi_symmetric: "Phi x + Phi (- x) = 1"
proof -
  have "(\<Sum>n. Phi_term (- x) n) = - (\<Sum>n. Phi_term x n)"
    by (simp add: Phi_term_minus suminf_minus [OF summable_Phi_term])
  then show ?thesis by (simp add: Phi_def)
qed

lemma foldl_np_add_Fin: "foldl np_add (Fin a) (map Fin xs) = Fin (a + sum_list xs)"
  by (induction xs arbitrary: a) (simp_all add: add.assoc)

lemma np_sum_Fin: "np_sum (map Fin xs) = Fin (sum_list xs)"
  by (simp add: np_sum_def foldl_np_add_Fin)

lemma dropna_Fin: "dropna (map Fin xs) = map Fin xs"
  by (induction xs) (simp_all add: dropna_def)

lemma pd_mean_Fin: "pd_mean (map Fin xs) = (if xs = [] then NaN else Fin (mean xs))"
  by (simp add: pd_mean_def dropna_Fin np_sum_Fin mean_def)

lemma np_insort_Fin: "np_insort (Fin x) (map Fin ys) = map Fin (insort x ys)"
  by (induction ys) simp_all

lemma np_sort_Fin: "np_sort (map Fin xs) = map Fin (sort xs)"
  by (induction xs) (simp_all add: np_sort_def np_insort_Fin)

lemma pd_median_Fin: "pd_median (map Fin xs) = (if xs = [] then NaN else Fin (median xs))"
proof (cases "xs = []")
  case True
  then show ?thesis by (simp add: pd_median_def dropna_def np_sort_def)
next
  case False
  then have n: "0 < length xs" by simp
  then have a: "length xs div 2 < length (sort xs)" by simp
  from n have b: "length xs div 2 - Suc 0 < length (sort xs)" by (simp add: less_imp_diff_less)
  have ys: "np_sort (dropna (map Fin xs)) = map Fin (sort xs)"
    by (simp add: dropna_Fin np_sort_Fin)
  show ?thesis
    unfolding pd_median_def ys median_def Let_def
    using False n by (simp add: nth_map [OF a] nth_map [OF b])
qed

lemma sum_squares_Fin:
  "np_sum (map (\<lambda>y. np_mul (np_sub (Fin m) y) (np_sub (Fin m) y)) (map Fin xs))
     = Fin (\<Sum>x\<leftarrow>xs. (x - m)\<^sup>2)"
proof -
  have "map (\<lambda>y. np_mul (np_sub (Fin m) y) (np_sub (Fin m) y)) (map Fin xs)
          = map Fin (map (\<lambda>x. (x - m)\<^sup>2) xs)"
    by (simp add: np_sub_def power2_eq_square algebra_simps)
  then show ?thesis by (simp only: np_sum_Fin)
qed

lemma pd_std_Fin:
  "pd_std (map Fin xs) = (if length xs \<le> 1 then NaN else Fin (sample_stddev xs))"
proof (cases "length xs \<le> 1")
  case True
  then show ?thesis by (simp add: pd_std_def dropna_Fin)
next
  case False
  then have n: "real (length xs) \<noteq> 0" "real (length xs - 1) \<noteq> 0" by auto
  have nonneg: "0 \<le> (\<Sum>x\<leftarrow>xs. (x - mean xs)\<^sup>2) / real (length xs - 1)"
    by (intro divide_nonneg_nonneg sum_list_nonneg) auto
  have avg: "np_div (np_sum (map Fin xs)) (Fin (real (length xs))) = Fin (mean xs)"
    using n by (simp add: np_sum_Fin mean_def)
  have "pd_std (map Fin xs)
          = np_sqrt_val (np_div (Fin (\<Sum>x\<leftarrow>xs. (x - mean xs)\<^sup>2)) (Fin (real (length xs - 1))))"
    unfolding pd_std_def dropna_Fin Let_def length_map avg sum_squares_Fin
    using False by simp
  also have "\<dots> = Fin (sample_stddev xs)"
    using n nonneg by (simp add: np_sqrt_def sample_stddev_def)
  finally show ?thesis using False by simp
qed

lemma percentage_error_finite:
  assumes "finite_prices q"
  shows "Percentage_Error (add_error_columns q)
           = (if Option_Close q = Fin 0 then PInf else Fin (pct_error q))"
proof -
  from assms obtain t c where "Black_Scholes_Price q = Fin t" "Option_Close q = Fin c"
    by (cases "Black_Scholes_Price q"; cases "Option_Close q") (simp_all add: finite_prices_def)
  then show ?thesis
    by (simp add: add_error_columns_def np_ne_def np_eq_def np_sub_def pct_error_def)
qed

lemma absolute_percentage_error_finite:
  assumes "finite_prices q"
  shows "Absolute_Percentage_Error (add_error_columns q)
           = (if Option_Close q = Fin 0 then PInf else Fin \<bar>pct_error q\<bar>)"
proof -
  have "Absolute_Percentage_Error (add_error_columns q)
          = np_abs (Percentage_Error (add_error_columns q))"
    by (simp add: add_error_columns_def Let_def)
  then show ?thesis by (simp add: percentage_error_finite [OF assms])
qed

lemma finite_errors_defined:
  "\<forall>q\<in>set qs. finite_prices q \<Longrightarrow>
     finite_errors (error_columns qs) = map Fin (defined_errors qs)"
  by (induction qs)
     (simp_all add: finite_errors_def error_columns_def defined_errors_def
        percentage_error_finite np_ne_def np_eq_def)

lemma finite_abs_errors_defined:
  "\<forall>q\<in>set qs. finite_prices q \<Longrightarrow>
     finite_abs_errors (error_columns qs) = map Fin (map abs (defined_errors qs))"
  by (induction qs)
     (simp_all add: finite_abs_errors_def error_columns_def defined_errors_def
        absolute_percentage_error_finite np_ne_def np_eq_def)

lemma length_defined_errors: "length (defined_errors qs) = length qs - zero_priced qs"
proof -
  have "length qs = length (filter (\<lambda>q. Option_Close q = Fin 0) qs)
                      + length (filter (\<lambda>q. Option_Close q \<noteq> Fin 0) qs)"
    by (rule sum_length_filter_compl [symmetric])
  then show ?thesis by (simp add: defined_errors_def zero_priced_def)
qed

lemma lower_call: "lower ''call'' = ''call''"
  by code_simp

lemma lower_put: "lower ''put'' = ''put''"
  by code_simp

lemma lower_Call: "lower ''Call'' = ''call''"
  by code_simp

lemma lower_straddle: "lower ''straddle'' = ''straddle''"
  by code_simp

lemma Phi_zero: "Phi 0 = 1 / 2"
  by (simp add: Phi_def Phi_term_def)

text \<open>The regular branch on well-formed inputs: every intermediate value is finite.\<close>

lemma black_scholes_regular:
  assumes "0 < S" "0 < K" "0 < sigma" "0 < T"
  shows "black_scholes S K T r sigma kind =
           (if lower kind = ''call'' then
              Inr (Fin (S * Phi (d1_formula S K T r sigma)
                        - K * exp (- r * T) * Phi (d2_formula S K T r sigma)))
            else if lower kind = ''put'' then
              Inr (Fin (K * exp (- r * T) * Phi (- d2_formula S K T r sigma)
                        - S * Phi (- d1_formula S K T r sigma)))
            else Inl ValueError_Invalid_option_type)"
proof -
  have pos: "0 < S / K" "sigma * sqrt T \<noteq> 0"
    using assms by simp_all
  have d1: "np_div (np_add (np_log (S / K)) (Fin ((r + 0.5 * sigma ^ 2) * T)))
                   (np_mul (Fin sigma) (np_sqrt T))
              = Fin (d1_formula S K T r sigma)"
    using pos assms by (simp add: np_log_def np_sqrt_def d1_formula_def)
  have d2: "np_sub (Fin (d1_formula S K T r sigma)) (np_mul (Fin sigma) (np_sqrt T))
              = Fin (d2_formula S K T r sigma)"
    using assms by (simp add: np_sub_def np_sqrt_def d2_formula_def)
  show ?thesis
    unfolding black_scholes_def d1 d2 Let_def
    using assms by (simp add: np_sub_def np_exp_def)
qed

text \<open>What the function does with an option type that is neither call nor put.\<close>

lemma black_scholes_unknown_kind:
  assumes "lower kind \<noteq> ''call''" "lower kind \<noteq> ''put''"
  shows "black_scholes S K T r sigma kind =
           (if T \<le> 0 then Inr (Fin 0)
            else if K = 0 then Inl ZeroDivisionError
            else Inl ValueError_Invalid_option_type)"
  using assms by (simp add: black_scholes_def Let_def)

section \<open>Properties of the pricing function\<close>

text \<open>
  C1. An option type other than call or put must fail with the invalid-option-kind
  error, for \<open>T > 0\<close> and for \<open>T \<le> 0\<close> alike. For \<open>T \<le> 0\<close> the function instead returns
  the price \<open>0.0\<close>: here at spot and strike 17000 on the expiry day.
\<close>

theorem black_scholes_unknown_kind_expired:
  "black_scholes 17000 17000 0 0.0685 0.145 ''straddle'' = Inr (Fin 0)"
  by (simp add: black_scholes_def lower_straddle)

text \<open>
  C2, as stated (zero volatility with \<open>T > 0\<close> raises an error and never returns NaN),
  fails at spot = strike = 100, rate = 0, \<open>T = 1\<close>: the function returns NaN.
\<close>

theorem black_scholes_zero_volatility_nan:
  "black_scholes 100 100 1 0 0 ''call'' = Inr NaN"
  by (simp add: black_scholes_def lower_call np_log_def np_sqrt_def np_sub_def)

text \<open>
  C2, amended. For spot > 0, strike > 0, \<open>T > 0\<close>, volatility 0 and an option type that
  is call or put, the function raises no error: there is no check of the volatility, and
  the call returns a float value.
\<close>

theorem black_scholes_zero_volatility_no_error:
  assumes "0 < S" "0 < K" "0 < T"
    and "lower kind = ''call'' \<or> lower kind = ''put''"
  shows "\<exists>v. black_scholes S K T r 0 kind = Inr v"
  using assms by (auto simp add: black_scholes_def Let_def)

theorem black_scholes_zero_volatility_no_error_witness:
  "(0::real) < 2 \<and> (0::real) < 1 \<and> lower ''put'' = ''put''
     \<and> (\<exists>v. black_scholes 2 1 1 0 0 ''put'' = Inr v)"
  using black_scholes_zero_volatility_no_error [of 2 1 1 "''put''" 0]
  by (simp add: lower_put)

text \<open>
  C4. For \<open>T \<le> 0\<close> the price is exactly the intrinsic value, \<open>max 0 (spot - strike)\<close> for
  a call and \<open>max 0 (strike - spot)\<close> for a put, whatever the strike, rate and volatility
  are: the formula with its division and logarithm is not evaluated.
\<close>

theorem black_scholes_expired_intrinsic:
  assumes "T \<le> 0"
  shows "(lower kind = ''call'' \<longrightarrow>
            black_scholes S K T r sigma kind = Inr (Fin (max 0 (S - K))))
       \<and> (lower kind = ''put'' \<longrightarrow>
            black_scholes S K T r sigma kind = Inr (Fin (max 0 (K - S))))"
  using assms by (simp add: black_scholes_def)

theorem black_scholes_expired_intrinsic_witness:
  "(0::real) \<le> 0 \<and> lower ''Call'' = ''call''
     \<and> black_scholes 17100 17000 0 0.0685 0.145 ''Call'' = Inr (Fin 100)"
  using black_scholes_expired_intrinsic [of 0 "''Call''" 17100 17000 "0.0685" "0.145"]
  by (simp add: lower_Call)

text \<open>
  C5. For spot, strike, volatility and \<open>T\<close> all positive the function returns
  \<open>spot * Phi d1 - strike * exp (- rate * T) * Phi d2\<close> for a call and
  \<open>strike * exp (- rate * T) * Phi (- d2) - spot * Phi (- d1)\<close> for a put, with
  \<open>d1 = (ln (spot / strike) + (rate + 0.5 * volatility^2) * T) / (volatility * sqrt T)\<close>
  and \<open>d2 = d1 - volatility * sqrt T\<close>.
\<close>

theorem black_scholes_formula:
  assumes "0 < S" "0 < K" "0 < sigma" "0 < T"
  shows "(lower kind = ''call'' \<longrightarrow>
            black_scholes S K T r sigma kind =
              Inr (Fin (S * Phi (d1_formula S K T r sigma)
                        - K * exp (- r * T) * Phi (d2_formula S K T r sigma))))
       \<and> (lower kind = ''put'' \<longrightarrow>
            black_scholes S K T r sigma kind =
              Inr (Fin (K * exp (- r * T) * Phi (- d2_formula S K T r sigma)
                        - S * Phi (- d1_formula S K T r sigma))))"
  by (simp add: black_scholes_regular [OF assms])

theorem black_scholes_formula_witness:
  "(0::real) < 17000 \<and> (0::real) < 0.145 \<and> (0::real) < 30 / 365
     \<and> lower ''call'' = ''call''
     \<and> black_scholes 17000 17000 (30 / 365) 0.0685 0.145 ''call'' =
         Inr (Fin (17000 * Phi (d1_formula 17000 17000 (30 / 365) 0.0685 0.145)
                   - 17000 * exp (- 0.0685 * (30 / 365))
                       * Phi (d2_formula 17000 17000 (30 / 365) 0.0685 0.145)))"
  using black_scholes_formula [of 17000 17000 "0.145" "30 / 365" "''call''" "0.0685"]
  by (simp add: lower_call)

text \<open>
  C8. For spot, strike, volatility and \<open>T\<close> all positive the call and the put price on
  the same inputs are both finite, and \<open>call - put = spot - strike * exp (- rate * T)\<close>
  (exactly, in real arithmetic).
\<close>

theorem put_call_parity:
  assumes "0 < S" "0 < K" "0 < sigma" "0 < T"
  shows "\<exists>c p. black_scholes S K T r sigma ''call'' = Inr (Fin c)
             \<and> black_scholes S K T r sigma ''put'' = Inr (Fin p)
             \<and> c - p = S - K * exp (- r * T)"
proof -
  let ?d1 = "d1_formula S K T r sigma" and ?d2 = "d2_formula S K T r sigma"
  let ?c = "S * Phi ?d1 - K * exp (- r * T) * Phi ?d2"
  let ?p = "K * exp (- r * T) * Phi (- ?d2) - S * Phi (- ?d1)"
  have call: "black_scholes S K T r sigma ''call'' = Inr (Fin ?c)"
    by (simp add: black_scholes_regular [OF assms] lower_call)
  have put: "black_scholes S K T r sigma ''put'' = Inr (Fin ?p)"
    by (simp add: black_scholes_regular [OF assms] lower_put)
  have "?c - ?p = S * (Phi ?d1 + Phi (- ?d1)) - K * exp (- r * T) * (Phi ?d2 + Phi (- ?d2))"
    by (simp add: algebra_simps)
  then have "?c - ?p = S - K * exp (- r * T)"
    by (simp only: Phi_symmetric mult_1_right)
  with call put show ?thesis by blast
qed

theorem put_call_parity_witness:
  "(0::real) < 17000 \<and> (0::real) < 0.145 \<and> (0::real) < 30 / 365
     \<and> (\<exists>c p. black_scholes 17000 17000 (30 / 365) 0.0685 0.145 ''call'' = Inr (Fin c)
             \<and> black_scholes 17000 17000 (30 / 365) 0.0685 0.145 ''put'' = Inr (Fin p)
             \<and> c - p = 17000 - 17000 * exp (- 0.0685 * (30 / 365)))"
  using put_call_parity [of 17000 17000 "0.145" "30 / 365" "0.0685"]
  by simp

text \<open>
  The pricing function and the two per-kind selections of the summary read the option
  type through \<open>lower\<close> only, so they do not depend on its letter case.
\<close>

lemma pricing_and_selections_ignore_case:
  "black_scholes S K T r sigma (lower kind) = black_scholes S K T r sigma kind
     \<and> call_options_df (lower_kinds options_df) = lower_kinds (call_options_df options_df)
     \<and> put_options_df (lower_kinds options_df) = lower_kinds (put_options_df options_df)"
  by (simp add: black_scholes_def call_options_df_def put_options_df_def lower_kinds_def
      lower_idem filter_map comp_def)

section \<open>Properties of the error columns and the summary\<close>

lemma scenario_finite_prices: "\<forall>q\<in>set scenario_quotes. finite_prices q"
  by (simp add: scenario_quotes_def finite_prices_def)

lemma scenario_defined_errors: "defined_errors scenario_quotes = [10, - 20]"
  by (simp add: scenario_quotes_def defined_errors_def pct_error_def)

lemma scenario_zero_priced: "zero_priced scenario_quotes = 1"
  by (simp add: scenario_quotes_def zero_priced_def)

lemma scenario_length: "length scenario_quotes = 3"
  by (simp add: scenario_quotes_def)

text \<open>
  C3, as stated (a zero observed price gives a percentage error that is not infinity),
  fails: for theoretical price 5 and observed price 0 the percentage error is \<open>+inf\<close>.
\<close>

theorem percentage_error_zero_close_is_inf:
  "Percentage_Error
     (add_error_columns
        \<lparr>Option_Type = ''call'', Option_Close = Fin 0, Black_Scholes_Price = Fin 5\<rparr>) = PInf"
  by (simp add: add_error_columns_def np_ne_def np_eq_def)

text \<open>
  C3, amended. For finite theoretical and observed prices, a record with observed price 0
  gets the percentage error \<open>+inf\<close>, the marker the code uses (a value that is no finite
  number, so not zero), every record keeps its row, so none is dropped from the record
  count, and a record with a non-zero observed price gets
  \<open>signed_error / observed_price * 100\<close>.
\<close>

theorem percentage_error_sentinel:
  assumes "\<forall>q\<in>set qs. finite_prices q"
  shows "processed_rows (error_columns qs) = length qs
       \<and> map Percentage_Error (error_columns qs) =
           map (\<lambda>q. if Option_Close q = Fin 0 then PInf else Fin (pct_error q)) qs
       \<and> map Pricing_Error (error_columns qs) =
           map (\<lambda>q. Fin (fin_val (Black_Scholes_Price q) - fin_val (Option_Close q))) qs"
proof -
  have pricing: "Pricing_Error (add_error_columns q)
                   = Fin (fin_val (Black_Scholes_Price q) - fin_val (Option_Close q))"
    if "finite_prices q" for q
    using that
    by (cases "Black_Scholes_Price q"; cases "Option_Close q")
       (simp_all add: finite_prices_def add_error_columns_def np_sub_def Let_def)
  show ?thesis
    using assms
    by (simp add: processed_rows_def error_columns_def percentage_error_finite pricing)
qed

theorem percentage_error_sentinel_witness:
  "processed_rows (error_columns scenario_quotes) = 3
     \<and> map Percentage_Error (error_columns scenario_quotes) = [Fin 10, PInf, Fin (- 20)]
     \<and> map Pricing_Error (error_columns scenario_quotes) = [Fin 10, Fin 7, Fin (- 10)]"
  using percentage_error_sentinel [OF scenario_finite_prices]
  by (simp add: scenario_quotes_def pct_error_def)

text \<open>
  C6. For \<open>N\<close> records with finite prices of which \<open>K\<close> have observed price 0, the summary
  counts \<open>N\<close> rows, the defined samples are the \<open>N - K\<close> percentage errors of the other
  records, and the mean and the median of the absolute error and the standard deviation
  of the signed error are the statistics of exactly these samples (NaN when there are
  too few of them).
\<close>

theorem summary_over_defined_samples:
  assumes "\<forall>q\<in>set qs. finite_prices q"
  shows "processed_rows (error_columns qs) = length qs
       \<and> length (defined_errors qs) = length qs - zero_priced qs
       \<and> average_absolute_error (error_columns qs) =
           (if defined_errors qs = [] then NaN else Fin (mean (map abs (defined_errors qs))))
       \<and> median_absolute_error (error_columns qs) =
           (if defined_errors qs = [] then NaN else Fin (median (map abs (defined_errors qs))))
       \<and> std_dev_error (error_columns qs) =
           (if length (defined_errors qs) \<le> 1 then NaN
            else Fin (sample_stddev (defined_errors qs)))"
proof -
  have rows: "processed_rows (error_columns qs) = length qs"
    by (simp add: processed_rows_def error_columns_def)
  have avg: "average_absolute_error (error_columns qs) =
               (if defined_errors qs = [] then NaN else Fin (mean (map abs (defined_errors qs))))"
    unfolding average_absolute_error_def finite_abs_errors_defined [OF assms] pd_mean_Fin
    by simp
  have med: "median_absolute_error (error_columns qs) =
               (if defined_errors qs = [] then NaN else Fin (median (map abs (defined_errors qs))))"
    unfolding median_absolute_error_def finite_abs_errors_defined [OF assms] pd_median_Fin
    by simp
  have std: "std_dev_error (error_columns qs) =
               (if length (defined_errors qs) \<le> 1 then NaN
                else Fin (sample_stddev (defined_errors qs)))"
    unfolding std_dev_error_def finite_errors_defined [OF assms] pd_std_Fin
    by simp
  from rows length_defined_errors avg med std show ?thesis by blast
qed

theorem summary_over_defined_samples_witness:
  "processed_rows (error_columns scenario_quotes) = 3
     \<and> length (defined_errors scenario_quotes) = 2
     \<and> average_absolute_error (error_columns scenario_quotes) = Fin 15
     \<and> median_absolute_error (error_columns scenario_quotes) = Fin 15
     \<and> std_dev_error (error_columns scenario_quotes) = Fin (sqrt 450)"
  using summary_over_defined_samples [OF scenario_finite_prices]
  by (simp add: scenario_defined_errors scenario_zero_priced scenario_length
      mean_def median_def sample_stddev_def)

text \<open>
  In the quantitative summary a frame without a defined percentage error (every row
  carries the marker \<open>+inf\<close>) gets no statistic printed as a number: the mean, median,
  standard deviation and mean error are NaN and go through the \<open>pd.isna\<close> branches, the
  per-kind selections are empty, and the empty frame gets no summary at all.
\<close>

lemma quantitative_summary_all_undefined:
  assumes "\<forall>row\<in>set options_df.
             Percentage_Error row = PInf \<and> Absolute_Percentage_Error row = PInf"
  shows "quantitative_summary options_df =
           (if options_df = [] then None
            else Some \<lparr> Total_Options_Processed = length options_df,
                        Number_of_Options = print_option_counts options_df,
                        Average_Absolute_Error = Could_not_be_calculated,
                        Average_Absolute_Error_Call = No_valid_data,
                        Average_Absolute_Error_Put = No_valid_data,
                        Median_Absolute_Error = Could_not_be_calculated,
                        Standard_Deviation_of_Error = Could_not_be_calculated,
                        Mean_Error = Could_not_be_calculated \<rparr>)"
proof -
  have abs: "finite_abs_errors options_df = []"
    using assms by (simp add: finite_abs_errors_def np_ne_def np_eq_def)
  have pct: "finite_errors options_df = []"
    using assms by (simp add: finite_errors_def np_ne_def np_eq_def)
  have call: "call_options_df options_df = []"
    using assms by (simp add: call_options_df_def np_ne_def np_eq_def)
  have put: "put_options_df options_df = []"
    using assms by (simp add: put_options_df_def np_ne_def np_eq_def)
  have stats: "average_absolute_error options_df = NaN"
    "median_absolute_error options_df = NaN"
    "std_dev_error options_df = NaN"
    "mean_error options_df = NaN"
    by (simp_all add: average_absolute_error_def median_absolute_error_def
        std_dev_error_def mean_error_def abs pct pd_mean_def pd_median_def pd_std_def
        dropna_def np_sort_def)
  show ?thesis
    by (simp add: quantitative_summary_def stats call put processed_rows_def
        print_unless_na_def print_kind_average_def)
qed

text \<open>
  C7. When no record has a defined percentage error, every summary statistic must be
  reported as undefined, never as a NaN without a tag. For a single record with observed
  price 0 the overall summary of the accuracy test prints its mean as a number, and the
  number is NaN; the quantitative summary tags the same mean as not calculable.
\<close>

theorem overall_summary_prints_nan:
  "overall_summary (error_columns [zero_priced_quote]) =
     Some \<lparr> Overall_Total_Options_Processed = 1,
            Overall_Average_Absolute_Error = Printed NaN \<rparr>
   \<and> map_option Average_Absolute_Error
         (quantitative_summary (error_columns [zero_priced_quote]))
       = Some Could_not_be_calculated"
  by (simp add: overall_summary_def quantitative_summary_def processed_rows_def
      average_error_def average_absolute_error_def finite_abs_errors_def pd_mean_def
      dropna_def print_unless_na_def error_columns_def add_error_columns_def
      zero_priced_quote_def np_ne_def np_eq_def)

text \<open>
  C10. Matching of the option type must ignore letter case throughout, the per-kind
  aggregation included. For two call records typed \<open>Call\<close> and \<open>CALL\<close> the per-kind
  counts of the summary keep two groups of one record each, both printed under the label
  \<open>Call\<close>, while the selection for the per-kind mean takes both records as calls.
\<close>

theorem option_counts_split_by_case:
  "option_counts (error_columns mixed_case_quotes) = [(''Call'', 1), (''CALL'', 1)]
   \<and> print_option_counts (error_columns mixed_case_quotes) = [(''Call'', 1), (''Call'', 1)]
   \<and> map Option_Type (call_options_df (error_columns mixed_case_quotes)) = [''Call'', ''CALL'']"
proof -
  have types: "map Option_Type (error_columns mixed_case_quotes) = [''Call'', ''CALL'']"
    by (simp add: error_columns_def add_error_columns_def mixed_case_quotes_def Let_def)
  have counts: "option_counts (error_columns mixed_case_quotes) = [(''Call'', 1), (''CALL'', 1)]"
    unfolding option_counts_def types by (simp add: value_counts_def)
  have labels: "capitalize ''Call'' = ''Call''" "capitalize ''CALL'' = ''Call''"
    by code_simp+
  have printed: "print_option_counts (error_columns mixed_case_quotes)
                   = [(''Call'', 1), (''Call'', 1)]"
    unfolding print_option_counts_def counts by (simp add: labels del: capitalize.simps)
  have lowered: "lower ''Call'' = ''call''" "lower ''CALL'' = ''call''"
    by code_simp+
  have selected: "map Option_Type (call_options_df (error_columns mixed_case_quotes))
                    = [''Call'', ''CALL'']"
    by (simp add: call_options_df_def error_columns_def add_error_columns_def
        mixed_case_quotes_def lowered np_ne_def np_eq_def np_sub_def Let_def)
  from counts printed selected show ?thesis by blast
qed

text \<open>
  C9. When at least two records have a defined percentage error, the reported standard
  deviation is the sample standard deviation of the defined signed percentage errors:
  the square root of the sum of squared deviations from their mean divided by their
  number minus one.
\<close>

theorem std_dev_error_sample:
  assumes "\<forall>q\<in>set qs. finite_prices q" and "2 \<le> length (defined_errors qs)"
  shows "std_dev_error (error_columns qs) =
           Fin (sqrt ((\<Sum>x\<leftarrow>defined_errors qs. (x - mean (defined_errors qs))\<^sup>2)
                      / (real (length (defined_errors qs)) - 1)))"
proof -
  have "std_dev_error (error_columns qs) = Fin (sample_stddev (defined_errors qs))"
    unfolding std_dev_error_def finite_errors_defined [OF assms(1)] pd_std_Fin
    using assms(2) by simp
  moreover have "real (length (defined_errors qs) - 1) = real (length (defined_errors qs)) - 1"
    using assms(2) by (simp add: of_nat_diff)
  ultimately show ?thesis by (simp add: sample_stddev_def)
qed

theorem std_dev_error_sample_witness:
  "length (defined_errors scenario_quotes) = 2
     \<and> std_dev_error (error_columns scenario_quotes) = Fin (sqrt 450)
     \<and> sqrt 450 \<noteq> sqrt (450 / 2)"
proof -
  have "sqrt 450 \<noteq> sqrt (450 / 2)"
    by (simp only: real_sqrt_eq_iff)
  then show ?thesis
    using std_dev_error_sample [OF scenario_finite_prices]
    by (simp add: scenario_defined_errors mean_def)
qed

end
